theory Spec2Isabelle
  imports Complex_Main "HOL-Library.Product_Lexorder" "HOL-Library.List_Lexorder"
    "HOL-Library.Char_ord"
begin

section \<open>Python values and the library calls the scripts make\<close>

text \<open>
  The scripts \<^verbatim>\<open>dev_run/analyze.py\<close> and \<^verbatim>\<open>dev_run/analyze_ext.py\<close> read JSON documents and
  log lines, build tables and write a markdown report. A value that \<^verbatim>\<open>json.loads\<close> returns
  is a \<open>json\<close>; \<open>JNull\<close> is Python's \<^verbatim>\<open>None\<close>. A JSON number is an exact rational: the
  rounding of binary floating point and the non-finite values are not part of a \<open>json\<close>
  (non-finite table cells, which the scripts create by dividing, are modelled further
  down). A dict is an association list read with \<open>map_of\<close>. A string is a list of
  characters, each standing for one code point below 256.
\<close>

datatype json =
    JNull
  | JBool bool
  | JInt int
  | JFloat rat
  | JStr string
  | JArr "json list"
  | JObj "(string \<times> json) list"

datatype py_error = FileNotFoundError | JSONDecodeError | AttributeError | TypeError | ValueError

text \<open>
  What the scripts take from outside: the files on disk (\<open>files p\<close> is the text of the file at
  path \<open>p\<close>, \<open>None\<close> when there is none), and the library functions whose code is not part of
  the repository: \<^verbatim>\<open>json.loads\<close> (\<open>None\<close> when it raises), \<^verbatim>\<open>int\<close> and \<^verbatim>\<open>float\<close> applied to a
  string (\<open>None\<close> for \<^verbatim>\<open>ValueError\<close>), \<^verbatim>\<open>os.path.relpath\<close>, and
  \<^verbatim>\<open>glob.glob(pattern, recursive=True)\<close> on the disk.
\<close>

record pyenv =
  files :: "string \<Rightarrow> string option"
  json_loads :: "string \<Rightarrow> json option"
  int_of_str :: "string \<Rightarrow> int option"
  float_of_str :: "string \<Rightarrow> rat option"
  relpath :: "string \<Rightarrow> string \<Rightarrow> string"
  glob_matches :: "string \<Rightarrow> string list"

text \<open>Truth value of a Python object, as \<^verbatim>\<open>x or d\<close> and \<^verbatim>\<open>if x\<close> test it.\<close>

fun truthy :: "json \<Rightarrow> bool" where
  "truthy JNull = False"
| "truthy (JBool b) = b"
| "truthy (JInt n) = (n \<noteq> 0)"
| "truthy (JFloat r) = (r \<noteq> 0)"
| "truthy (JStr s) = (s \<noteq> [])"
| "truthy (JArr xs) = (xs \<noteq> [])"
| "truthy (JObj kv) = (kv \<noteq> [])"

text \<open>\<^verbatim>\<open>x.get(k, d)\<close>: only a dict has the method.\<close>

fun py_get :: "json \<Rightarrow> string \<Rightarrow> json \<Rightarrow> py_error + json" where
  "py_get (JObj kv) k d = Inr (case map_of kv k of None \<Rightarrow> d | Some v \<Rightarrow> v)"
| "py_get _ k d = Inl AttributeError"

text \<open>\<^verbatim>\<open>x.get(k, d) or d\<close>.\<close>

definition get_or :: "json \<Rightarrow> string \<Rightarrow> json \<Rightarrow> py_error + json" where
  "get_or x k d =
     (case py_get x k d of
        Inl e \<Rightarrow> Inl e
      | Inr v \<Rightarrow> Inr (if truthy v then v else d))"

text \<open>\<^verbatim>\<open>int(x)\<close> and \<^verbatim>\<open>float(x)\<close>; \<^verbatim>\<open>int\<close> of a float truncates towards zero.\<close>

definition trunc :: "rat \<Rightarrow> int" where
  "trunc r = (if 0 \<le> r then \<lfloor>r\<rfloor> else \<lceil>r\<rceil>)"

fun py_int :: "pyenv \<Rightarrow> json \<Rightarrow> py_error + int" where
  "py_int env (JInt n) = Inr n"
| "py_int env (JBool b) = Inr (if b then 1 else 0)"
| "py_int env (JFloat r) = Inr (trunc r)"
| "py_int env (JStr s) = (case int_of_str env s of None \<Rightarrow> Inl ValueError | Some n \<Rightarrow> Inr n)"
| "py_int env _ = Inl TypeError"

fun py_float :: "pyenv \<Rightarrow> json \<Rightarrow> py_error + rat" where
  "py_float env (JInt n) = Inr (of_int n)"
| "py_float env (JBool b) = Inr (if b then 1 else 0)"
| "py_float env (JFloat r) = Inr r"
| "py_float env (JStr s) = (case float_of_str env s of None \<Rightarrow> Inl ValueError | Some r \<Rightarrow> Inr r)"
| "py_float env _ = Inl TypeError"

text \<open>Python's \<^verbatim>\<open>==\<close> on such values: numbers compare by value across bool, int and float.\<close>

fun num_of :: "json \<Rightarrow> rat option" where
  "num_of (JBool b) = Some (if b then 1 else 0)"
| "num_of (JInt n) = Some (of_int n)"
| "num_of (JFloat r) = Some r"
| "num_of _ = None"

fun py_eq :: "json \<Rightarrow> json \<Rightarrow> bool" where
  "py_eq JNull JNull = True"
| "py_eq (JStr s) (JStr t) = (s = t)"
| "py_eq (JArr xs) (JArr ys) = list_all2 py_eq xs ys"
| "py_eq (JObj kv) (JObj kw) =
     (length kv = length kw \<and>
      list_all (\<lambda>p. case map_of kw (fst p) of None \<Rightarrow> False | Some w \<Rightarrow> py_eq (snd p) w) kv)"
| "py_eq x y = (case num_of x of None \<Rightarrow> False | Some a \<Rightarrow> num_of y = Some a)"

text \<open>The slice \<^verbatim>\<open>xs[::2]\<close>.\<close>

fun every_other :: "'a list \<Rightarrow> 'a list" where
  "every_other [] = []"
| "every_other [x] = [x]"
| "every_other (x # y # xs) = x # every_other xs"

subsection \<open>Strings and paths\<close>

text \<open>\<^verbatim>\<open>str.isspace\<close> and the line boundaries of \<^verbatim>\<open>str.splitlines\<close>, on code points below 256.\<close>

definition py_isspace :: "char \<Rightarrow> bool" where
  "py_isspace c =
     (c \<in> set [CHR 0x09, CHR 0x0A, CHR 0x0B, CHR 0x0C, CHR 0x0D, CHR 0x1C, CHR 0x1D, CHR 0x1E,
                CHR 0x1F, CHR 0x20, CHR 0x85, CHR 0xA0])"

definition is_linebreak :: "char \<Rightarrow> bool" where
  "is_linebreak c =
     (c \<in> set [CHR 0x0A, CHR 0x0B, CHR 0x0C, CHR 0x0D, CHR 0x1C, CHR 0x1D, CHR 0x1E, CHR 0x85])"

definition lstrip :: "string \<Rightarrow> string" where
  "lstrip s = dropWhile py_isspace s"

definition rstrip :: "string \<Rightarrow> string" where
  "rstrip s = rev (dropWhile py_isspace (rev s))"

definition strip :: "string \<Rightarrow> string" where
  "strip s = lstrip (rstrip s)"

definition rstrip_char :: "char \<Rightarrow> string \<Rightarrow> string" where
  "rstrip_char c s = rev (dropWhile (\<lambda>x. x = c) (rev s))"

text \<open>
  \<^verbatim>\<open>text.splitlines()\<close>: the second argument is the rest of the text, the first the line
  being read, reversed. A carriage return followed by a line feed is one boundary.
\<close>

fun splitlines_from :: "string \<Rightarrow> string \<Rightarrow> string list" where
  "splitlines_from cur [] = (if cur = [] then [] else [rev cur])"
| "splitlines_from cur (c # cs) =
     (if is_linebreak c then
        (case cs of
           d # ds \<Rightarrow>
             if c = CHR 0x0D \<and> d = CHR 0x0A then rev cur # splitlines_from [] ds
             else rev cur # splitlines_from [] cs
         | [] \<Rightarrow> rev cur # splitlines_from [] cs)
      else splitlines_from (c # cur) cs)"

definition splitlines :: "string \<Rightarrow> string list" where
  "splitlines s = splitlines_from [] s"

text \<open>\<^verbatim>\<open>os.path.join\<close> of two components, \<^verbatim>\<open>os.path.dirname\<close> and \<^verbatim>\<open>os.path.basename\<close> (POSIX).\<close>

definition path_join :: "string \<Rightarrow> string \<Rightarrow> string" where
  "path_join a b =
     (if b \<noteq> [] \<and> hd b = CHR ''/'' then b
      else if a = [] \<or> last a = CHR ''/'' then a @ b
      else a @ ''/'' @ b)"

definition basename :: "string \<Rightarrow> string" where
  "basename p = rev (takeWhile (\<lambda>c. c \<noteq> CHR ''/'') (rev p))"

definition dirname :: "string \<Rightarrow> string" where
  "dirname p =
     (let h = take (length p - length (basename p)) p
      in if h \<noteq> [] \<and> \<not> list_all (\<lambda>c. c = CHR ''/'') h then rstrip_char CHR ''/'' h else h)"

section \<open>Per-request statistics\<close>

text \<open>
  \<^verbatim>\<open>np.percentile(samples, q)\<close> with its default linear interpolation: on the sorted samples
  the virtual index is \<open>(n - 1) * q / 100\<close>, and the result lies between its two
  neighbours. The scripts call it on non-empty lists only.
\<close>

definition percentile :: "rat list \<Rightarrow> rat \<Rightarrow> rat" where
  "percentile xs q =
     (let s = sort xs;
          n = length s;
          h = of_nat (n - 1) * q / 100;
          lo = nat \<lfloor>h\<rfloor>;
          hi = min (lo + 1) (n - 1);
          g = h - of_nat lo
      in s ! lo + (s ! hi - s ! lo) * g)"

text \<open>
  \<^verbatim>\<open>_iter_requests\<close>, the generator inside \<^verbatim>\<open>_read_per_request_stats\<close>. It has no effect
  of its own, so the list of the objects it yields stands for it. \<open>iter_ndjson\<close> is its
  fallback loop over the lines of the text.
\<close>

fun iter_ndjson :: "pyenv \<Rightarrow> string list \<Rightarrow> json list" where
  "iter_ndjson env [] = []"
| "iter_ndjson env (line # rest) =
     (let l = rstrip_char CHR '','' (strip line)
      in if l = [] \<or> l = ''['' \<or> l = '']'' then iter_ndjson env rest
         else (case json_loads env l of
                 None \<Rightarrow> iter_ndjson env rest
               | Some obj \<Rightarrow> obj # iter_ndjson env rest))"

definition iter_requests :: "pyenv \<Rightarrow> string \<Rightarrow> json list" where
  "iter_requests env text =
     (if text = [] then []
      else if (case lstrip text of [] \<Rightarrow> False | c # cs \<Rightarrow> c = CHR ''['') then
        (case json_loads env text of
           None \<Rightarrow> iter_ndjson env (splitlines text)
         | Some (JArr objs) \<Rightarrow> objs
         | Some other \<Rightarrow> [])
      else iter_ndjson env (splitlines text))"

text \<open>
  The loop of \<^verbatim>\<open>_read_per_request_stats\<close> over the yielded objects updates the two token
  totals and the two sample lists. The whole loop stands in one \<^verbatim>\<open>try\<close> whose handler is
  \<^verbatim>\<open>pass\<close>: an exception ends the loop and keeps what was accumulated before it. Each
  step returns the exception it raised, if any, with the state reached.
\<close>

record pr_state =
  in_tokens :: int
  out_tokens :: int
  ttft_samples :: "rat list"
  itl_samples :: "rat list"

definition add_tokens :: "pyenv \<Rightarrow> json \<Rightarrow> pr_state \<Rightarrow> py_error option \<times> pr_state" where
  "add_tokens env info st =
     (case get_or info ''input_tokens'' (JInt 0) of
        Inl e \<Rightarrow> (Some e, st)
      | Inr a \<Rightarrow>
          (case py_int env a of
             Inl e \<Rightarrow> (Some e, st)
           | Inr n \<Rightarrow>
               (let st1 = st\<lparr>in_tokens := in_tokens st + n\<rparr>
                in case get_or info ''output_tokens'' (JInt 0) of
                     Inl e \<Rightarrow> (Some e, st1)
                   | Inr b \<Rightarrow>
                       (case py_int env b of
                          Inl e \<Rightarrow> (Some e, st1)
                        | Inr m \<Rightarrow> (None, st1\<lparr>out_tokens := out_tokens st1 + m\<rparr>)))))"

definition token_starts_of :: "json list \<Rightarrow> json list" where
  "token_starts_of tok_times =
     (case tok_times of
        a # b # rest \<Rightarrow> if py_eq a b then every_other tok_times else tok_times
      | _ \<Rightarrow> tok_times)"

fun itl_loop :: "pyenv \<Rightarrow> json list \<Rightarrow> rat list \<Rightarrow> py_error option \<times> rat list" where
  "itl_loop env (x # y # rest) samples =
     (case py_float env y of
        Inl e \<Rightarrow> (Some e, samples)
      | Inr fy \<Rightarrow>
          (case py_float env x of
             Inl e \<Rightarrow> (Some e, samples)
           | Inr fx \<Rightarrow>
               itl_loop env (y # rest) (if 0 \<le> fy - fx then samples @ [fy - fx] else samples)))"
| "itl_loop env rest samples = (None, samples)"

definition add_ttft :: "pyenv \<Rightarrow> json \<Rightarrow> json list \<Rightarrow> pr_state \<Rightarrow> py_error + pr_state" where
  "add_ttft env start_time token_starts st =
     (case token_starts of
        [] \<Rightarrow> Inr st
      | t # ts \<Rightarrow>
          if start_time = JNull then Inr st
          else (case py_float env t of
                  Inl e \<Rightarrow> Inl e
                | Inr t0 \<Rightarrow>
                    (case py_float env start_time of
                       Inl e \<Rightarrow> Inl e
                     | Inr s0 \<Rightarrow>
                         Inr (if 0 \<le> t0 - s0
                              then st\<lparr>ttft_samples := ttft_samples st @ [t0 - s0]\<rparr>
                              else st))))"

definition add_samples ::
  "pyenv \<Rightarrow> json \<Rightarrow> json list \<Rightarrow> pr_state \<Rightarrow> py_error option \<times> pr_state" where
  "add_samples env start_time tok_times st =
     (let token_starts = token_starts_of tok_times
      in case add_ttft env start_time token_starts st of
           Inl e \<Rightarrow> (Some e, st)
         | Inr st1 \<Rightarrow>
             (case itl_loop env token_starts (itl_samples st1) of
                (err, samples) \<Rightarrow> (err, st1\<lparr>itl_samples := samples\<rparr>)))"

definition process_request :: "pyenv \<Rightarrow> json \<Rightarrow> pr_state \<Rightarrow> py_error option \<times> pr_state" where
  "process_request env obj st =
     (case obj of
        JObj kv \<Rightarrow>
          if (case map_of kv ''error'' of None \<Rightarrow> False | Some v \<Rightarrow> v \<noteq> JNull) then (None, st)
          else (case get_or obj ''info'' (JObj []) of
                  Inl e \<Rightarrow> (Some e, st)
                | Inr info \<Rightarrow>
                    (case add_tokens env info st of
                       (Some e, st1) \<Rightarrow> (Some e, st1)
                     | (None, st1) \<Rightarrow>
                         (case get_or info ''output_token_times'' (JArr []) of
                            Inl e \<Rightarrow> (Some e, st1)
                          | Inr (JArr tok_times) \<Rightarrow>
                              if tok_times = [] then (None, st1)
                              else add_samples env
                                     (case map_of kv ''start_time'' of None \<Rightarrow> JNull | Some v \<Rightarrow> v)
                                     tok_times st1
                          | Inr other \<Rightarrow> (None, st1))))
      | _ \<Rightarrow> (None, st))"

fun run_requests :: "pyenv \<Rightarrow> json list \<Rightarrow> pr_state \<Rightarrow> py_error option \<times> pr_state" where
  "run_requests env [] st = (None, st)"
| "run_requests env (obj # objs) st =
     (case process_request env obj st of
        (Some e, st1) \<Rightarrow> (Some e, st1)
      | (None, st1) \<Rightarrow> run_requests env objs st1)"

record pr_stats =
  input_tokens_total :: int
  output_tokens_total :: int
  ttft_p50_s_computed :: "rat option"
  ttft_p90_s_computed :: "rat option"
  itl_p50_s_computed :: "rat option"
  itl_p90_s_computed :: "rat option"

definition read_per_request_stats :: "pyenv \<Rightarrow> string \<Rightarrow> pr_stats" where
  "read_per_request_stats env stage_dir =
     (case files env (path_join stage_dir ''per_request_lifecycle_metrics.json'') of
        None \<Rightarrow>
          \<lparr>input_tokens_total = 0, output_tokens_total = 0,
           ttft_p50_s_computed = None, ttft_p90_s_computed = None,
           itl_p50_s_computed = None, itl_p90_s_computed = None\<rparr>
      | Some text \<Rightarrow>
          (let st = snd (run_requests env (iter_requests env text)
                          \<lparr>in_tokens = 0, out_tokens = 0, ttft_samples = [], itl_samples = []\<rparr>)
           in \<lparr>input_tokens_total = in_tokens st, output_tokens_total = out_tokens st,
               ttft_p50_s_computed =
                 (if ttft_samples st = [] then None else Some (percentile (ttft_samples st) 50)),
               ttft_p90_s_computed =
                 (if ttft_samples st = [] then None else Some (percentile (ttft_samples st) 90)),
               itl_p50_s_computed =
                 (if itl_samples st = [] then None else Some (percentile (itl_samples st) 50)),
               itl_p90_s_computed =
                 (if itl_samples st = [] then None else Some (percentile (itl_samples st) 90))\<rparr>))"

text \<open>
  For the statements about the line-by-line scan: the text reaches the fallback loop of
  \<^verbatim>\<open>_iter_requests\<close> when it is not empty and either does not start with a bracket or is
  not one JSON document; a line parses when \<^verbatim>\<open>json.loads\<close> accepts it after the loop's
  stripping.
\<close>

definition scanned_by_line :: "pyenv \<Rightarrow> string \<Rightarrow> bool" where
  "scanned_by_line env text =
     (text \<noteq> [] \<and>
      ((case lstrip text of [] \<Rightarrow> True | c # cs \<Rightarrow> c \<noteq> CHR ''['') \<or> json_loads env text = None))"

definition line_parses :: "pyenv \<Rightarrow> string \<Rightarrow> bool" where
  "line_parses env line = (json_loads env (rstrip_char CHR '','' (strip line)) \<noteq> None)"

definition line_ignored :: "string \<Rightarrow> bool" where
  "line_ignored line =
     (let l = rstrip_char CHR '','' (strip line) in l = [] \<or> l = ''['' \<or> l = '']'')"


section \<open>Stage files\<close>

text \<open>Sequencing of calls that may raise: the first exception is the result.\<close>

definition py_bind :: "py_error + 'a \<Rightarrow> ('a \<Rightarrow> py_error + 'b) \<Rightarrow> py_error + 'b" where
  "py_bind m f = (case m of Inl e \<Rightarrow> Inl e | Inr x \<Rightarrow> f x)"

text \<open>\<^verbatim>\<open>find_stage_files\<close>: the sorted set of the matches of two glob patterns.\<close>

definition find_stage_files :: "pyenv \<Rightarrow> string \<Rightarrow> string list" where
  "find_stage_files env root_dir =
     sort (remdups
       (glob_matches env
          (foldl path_join root_dir [''**'', ''results'', ''*'', ''stage_*_lifecycle_metrics.json'']) @
        glob_matches env (foldl path_join root_dir [''**'', ''stage_*_lifecycle_metrics.json''])))"

text \<open>\<^verbatim>\<open>s.split(sep)\<close> for a one-character separator.\<close>

fun split_from :: "char \<Rightarrow> string \<Rightarrow> string \<Rightarrow> string list" where
  "split_from sep cur [] = [rev cur]"
| "split_from sep cur (c # cs) =
     (if c = sep then rev cur # split_from sep [] cs else split_from sep (c # cur) cs)"

definition top_level_label :: "pyenv \<Rightarrow> string \<Rightarrow> string \<Rightarrow> string" where
  "top_level_label env base_dir path =
     (let rel = relpath env (dirname path) base_dir;
          parts = filter (\<lambda>p. p \<noteq> [] \<and> p \<noteq> ''.'') (split_from CHR ''/'' [] rel)
      in case parts of
           p # ps \<Rightarrow> p
         | [] \<Rightarrow> (if basename (dirname path) \<noteq> [] then basename (dirname path) else ''root''))"

text \<open>
  The stage index: \<^verbatim>\<open>re.match(r"stage_(\d+)_lifecycle_metrics\.json", name)\<close> matches at the
  start of the name, and the digits are read as a decimal number.
\<close>

definition is_digit :: "char \<Rightarrow> bool" where
  "is_digit c = (CHR ''0'' \<le> c \<and> c \<le> CHR ''9'')"

definition digits_value :: "string \<Rightarrow> int" where
  "digits_value ds = foldl (\<lambda>a c. 10 * a + (of_char c - 48)) 0 ds"

definition stage_index_of :: "string \<Rightarrow> int option" where
  "stage_index_of name =
     (let ds = takeWhile is_digit (drop 6 name)
      in if take 6 name = ''stage_'' \<and> ds \<noteq> [] \<and>
            take 23 (dropWhile is_digit (drop 6 name)) = ''_lifecycle_metrics.json''
         then Some (digits_value ds) else None)"

text \<open>
  A stage record, as \<^verbatim>\<open>parse_stage_file\<close> returns it (\<open>'v\<close> is \<open>json\<close>: the values are
  passed on as they were read) and as a row of the stage table (\<open>'v\<close> is a table cell).
\<close>

record 'v stage_record =
  "experiment" :: string
  stage_index :: "int option"
  requested_qps :: 'v
  send_duration_s :: 'v
  achieved_rps_json :: 'v
  input_toks_per_sec_json :: 'v
  output_toks_per_sec_json :: 'v
  total_toks_per_sec_json :: 'v
  ttft_mean_s :: 'v
  ttft_p50_s :: 'v
  ttft_p90_s :: 'v
  itl_mean_s :: 'v
  itl_p50_s :: 'v
  itl_p90_s :: 'v
  request_latency_p50_s :: 'v
  successes :: int
  failures :: int
  success_rate :: "rat option"
  input_tokens_total :: int
  output_tokens_total :: int
  source_path :: string

text \<open>
  The fallback for a bogus or missing percentile:
  \<^verbatim>\<open>if (x is None or float(x) == 0.0) and computed is not None: x = computed\<close>.
\<close>

definition fallback :: "pyenv \<Rightarrow> json \<Rightarrow> rat option \<Rightarrow> py_error + json" where
  "fallback env x computed =
     (if x = JNull then Inr (case computed of None \<Rightarrow> x | Some c \<Rightarrow> JFloat c)
      else py_bind (py_float env x) (\<lambda>f.
        Inr (if f = 0 then (case computed of None \<Rightarrow> x | Some c \<Rightarrow> JFloat c) else x)))"

definition parse_stage_file :: "pyenv \<Rightarrow> string \<Rightarrow> string \<Rightarrow> py_error + json stage_record" where
  "parse_stage_file env base_dir path =
     (case files env path of
        None \<Rightarrow> Inl FileNotFoundError
      | Some text \<Rightarrow>
     (case json_loads env text of
        None \<Rightarrow> Inl JSONDecodeError
      | Some data \<Rightarrow>
     py_bind (get_or data ''load_summary'' (JObj [])) (\<lambda>load.
     py_bind (get_or data ''successes'' (JObj [])) (\<lambda>succ.
     py_bind (get_or data ''failures'' (JObj [])) (\<lambda>fails.
     py_bind (get_or succ ''latency'' (JObj [])) (\<lambda>lat.
     py_bind (get_or lat ''time_to_first_token'' (JObj [])) (\<lambda>ttf.
     py_bind (get_or lat ''inter_token_latency'' (JObj [])) (\<lambda>itl.
     py_bind (get_or lat ''request_latency'' (JObj [])) (\<lambda>reqL.
     py_bind (get_or succ ''throughput'' (JObj [])) (\<lambda>thr.
     py_bind (py_get thr ''input_tokens_per_sec'' JNull) (\<lambda>itps_json.
     py_bind (py_get thr ''output_tokens_per_sec'' JNull) (\<lambda>otps_json.
     py_bind (py_get thr ''total_tokens_per_sec'' JNull) (\<lambda>ttps_json.
     py_bind (py_bind (get_or succ ''count'' (JInt 0)) (py_int env)) (\<lambda>n_succ.
     py_bind (py_bind (get_or fails ''count'' (JInt 0)) (py_int env)) (\<lambda>n_fail.
     let total = n_succ + n_fail;
         rate = (if total \<noteq> 0 then Some (of_int n_succ / of_int total) else None);
         pr = read_per_request_stats env (dirname path)
     in
     py_bind (py_get ttf ''p50'' JNull) (\<lambda>ttft_p50_f.
     py_bind (py_get ttf ''p90'' JNull) (\<lambda>ttft_p90_f.
     py_bind (py_get itl ''p50'' JNull) (\<lambda>itl_p50_f.
     py_bind (py_get itl ''p90'' JNull) (\<lambda>itl_p90_f.
     py_bind (fallback env itl_p50_f (itl_p50_s_computed pr)) (\<lambda>itl_p50.
     py_bind (fallback env itl_p90_f (itl_p90_s_computed pr)) (\<lambda>itl_p90.
     py_bind (fallback env ttft_p50_f (ttft_p50_s_computed pr)) (\<lambda>ttft_p50.
     py_bind (fallback env ttft_p90_f (ttft_p90_s_computed pr)) (\<lambda>ttft_p90.
     py_bind (py_get load ''requested_rate'' JNull) (\<lambda>rate_req.
     py_bind (py_get load ''send_duration'' JNull) (\<lambda>duration.
     py_bind (py_get thr ''requests_per_sec'' JNull) (\<lambda>rps.
     py_bind (py_get ttf ''mean'' JNull) (\<lambda>ttft_mean.
     py_bind (py_get itl ''mean'' JNull) (\<lambda>itl_mean.
     py_bind (py_get reqL ''p50'' JNull) (\<lambda>req_p50.
     Inr \<lparr>experiment = top_level_label env base_dir path,
          stage_index = stage_index_of (basename path),
          requested_qps = rate_req,
          send_duration_s = duration,
          achieved_rps_json = rps,
          input_toks_per_sec_json = itps_json,
          output_toks_per_sec_json = otps_json,
          total_toks_per_sec_json = ttps_json,
          ttft_mean_s = ttft_mean,
          ttft_p50_s = ttft_p50,
          ttft_p90_s = ttft_p90,
          itl_mean_s = itl_mean,
          itl_p50_s = itl_p50,
          itl_p90_s = itl_p90,
          request_latency_p50_s = req_p50,
          successes = n_succ,
          failures = n_fail,
          success_rate = rate,
          input_tokens_total = pr_stats.input_tokens_total pr,
          output_tokens_total = pr_stats.output_tokens_total pr,
          source_path = path\<rparr>)))))))))))))))))))))))))))))"

text \<open>
  For the statements about a stage record: the value at a path of keys in the stage
  document, \<open>JNull\<close> where a key is missing or the value on the way is not a dict.
\<close>

fun lookup_path :: "json \<Rightarrow> string list \<Rightarrow> json" where
  "lookup_path v [] = v"
| "lookup_path (JObj kv) (k # ks) =
     (case map_of kv k of None \<Rightarrow> JNull | Some w \<Rightarrow> lookup_path w ks)"
| "lookup_path v (k # ks) = JNull"

text \<open>
  The choice between the stage document's percentile \<open>j\<close> and the recomputed one \<open>c\<close>, in the
  words of the specification: the recomputed value when \<open>j\<close> is absent or is 0.0 and \<open>c\<close>
  exists, \<open>j\<close> in every other case. (``Is 0.0'' is the source's test \<^verbatim>\<open>float(j) == 0.0\<close>.)
\<close>

definition percentile_choice :: "pyenv \<Rightarrow> json \<Rightarrow> rat option \<Rightarrow> json" where
  "percentile_choice env j c =
     (if (j = JNull \<or> py_float env j = Inr 0) \<and> c \<noteq> None then JFloat (the c) else j)"

section \<open>Tables\<close>

text \<open>
  A numeric cell of a pandas table: a finite number, an infinity (a division by zero
  makes one) or NaN, which is also the marker of a missing value.
  \<^verbatim>\<open>pd.DataFrame(rows)\<close> turns a number into a numeric cell and \<^verbatim>\<open>None\<close> into NaN. A
  column holding a string, a list or a dict is not numeric in pandas; such values are
  outside this table model and stand as NaN.
\<close>

datatype cell = Num rat | PInf | NInf | NaN

fun cell_of :: "json \<Rightarrow> cell" where
  "cell_of (JInt n) = Num (of_int n)"
| "cell_of (JFloat r) = Num r"
| "cell_of (JBool b) = Num (if b then 1 else 0)"
| "cell_of v = NaN"

definition frame_row :: "json stage_record \<Rightarrow> cell stage_record" where
  "frame_row r =
     \<lparr>experiment = experiment r,
      stage_index = stage_index r,
      requested_qps = cell_of (requested_qps r),
      send_duration_s = cell_of (send_duration_s r),
      achieved_rps_json = cell_of (achieved_rps_json r),
      input_toks_per_sec_json = cell_of (input_toks_per_sec_json r),
      output_toks_per_sec_json = cell_of (output_toks_per_sec_json r),
      total_toks_per_sec_json = cell_of (total_toks_per_sec_json r),
      ttft_mean_s = cell_of (ttft_mean_s r),
      ttft_p50_s = cell_of (ttft_p50_s r),
      ttft_p90_s = cell_of (ttft_p90_s r),
      itl_mean_s = cell_of (itl_mean_s r),
      itl_p50_s = cell_of (itl_p50_s r),
      itl_p90_s = cell_of (itl_p90_s r),
      request_latency_p50_s = cell_of (request_latency_p50_s r),
      successes = successes r,
      failures = failures r,
      success_rate = success_rate r,
      input_tokens_total = input_tokens_total r,
      output_tokens_total = output_tokens_total r,
      source_path = source_path r\<rparr>"

text \<open>
  Sort keys for \<^verbatim>\<open>sort_values\<close>: ascending or descending, NaN last either way. Sorting by
  several columns is a stable sort on the tuple of their keys.
\<close>

fun asc_key :: "cell \<Rightarrow> nat \<times> rat" where
  "asc_key NInf = (0, 0)"
| "asc_key (Num r) = (1, r)"
| "asc_key PInf = (2, 0)"
| "asc_key NaN = (3, 0)"

fun desc_key :: "cell \<Rightarrow> nat \<times> rat" where
  "desc_key PInf = (0, 0)"
| "desc_key (Num r) = (1, - r)"
| "desc_key NInf = (2, 0)"
| "desc_key NaN = (3, 0)"

fun index_key :: "int option \<Rightarrow> nat \<times> int" where
  "index_key (Some i) = (0, i)"
| "index_key None = (1, 0)"

text \<open>
  \<^verbatim>\<open>build_stage_df\<close>: the list comprehension calls \<^verbatim>\<open>parse_stage_file\<close> on each
  discovered file in turn, with no handler around it, so the first exception leaves the
  function; otherwise the table of the records is sorted.
\<close>

fun parse_all :: "pyenv \<Rightarrow> string \<Rightarrow> string list \<Rightarrow> py_error + json stage_record list" where
  "parse_all env base_dir [] = Inr []"
| "parse_all env base_dir (p # ps) =
     py_bind (parse_stage_file env base_dir p) (\<lambda>r.
     py_bind (parse_all env base_dir ps) (\<lambda>rs. Inr (r # rs)))"

definition build_stage_df :: "pyenv \<Rightarrow> string \<Rightarrow> py_error + cell stage_record list" where
  "build_stage_df env base_dir =
     py_bind (parse_all env base_dir (find_stage_files env base_dir)) (\<lambda>rows.
       Inr (if rows = [] then []
            else sort_key (\<lambda>r. (experiment r, asc_key (requested_qps r), index_key (stage_index r)))
                   (map frame_row rows)))"

section \<open>EPP log lines\<close>















section \<open>Aggregation per experiment and requested rate\<close>

text \<open>
  Arithmetic on cells follows IEEE 754 on the extended line, with exact finite values: an
  operation on NaN is NaN, and so are \<open>\<infinity> - \<infinity>\<close>, \<open>0 * \<infinity>\<close>, \<open>0 / 0\<close> and \<open>\<infinity> / \<infinity>\<close>; a non-zero
  number divided by zero is an infinity. Zero has no sign here: it divides as \<open>+0\<close>.
\<close>

fun c_add :: "cell \<Rightarrow> cell \<Rightarrow> cell" where
  "c_add (Num a) (Num b) = Num (a + b)"
| "c_add NaN y = NaN"
| "c_add x NaN = NaN"
| "c_add PInf NInf = NaN"
| "c_add NInf PInf = NaN"
| "c_add PInf y = PInf"
| "c_add x PInf = PInf"
| "c_add NInf y = NInf"
| "c_add x NInf = NInf"

fun c_neg :: "cell \<Rightarrow> cell" where
  "c_neg (Num a) = Num (- a)"
| "c_neg PInf = NInf"
| "c_neg NInf = PInf"
| "c_neg NaN = NaN"

definition c_sub :: "cell \<Rightarrow> cell \<Rightarrow> cell" where
  "c_sub x y = c_add x (c_neg y)"

fun c_sign :: "cell \<Rightarrow> int" where
  "c_sign (Num a) = (if 0 < a then 1 else if a < 0 then - 1 else 0)"
| "c_sign PInf = 1"
| "c_sign NInf = - 1"
| "c_sign NaN = 0"

definition signed_inf :: "int \<Rightarrow> cell" where
  "signed_inf s = (if s = 0 then NaN else if 0 < s then PInf else NInf)"

fun c_mul :: "cell \<Rightarrow> cell \<Rightarrow> cell" where
  "c_mul (Num a) (Num b) = Num (a * b)"
| "c_mul NaN y = NaN"
| "c_mul x NaN = NaN"
| "c_mul x y = signed_inf (c_sign x * c_sign y)"

fun c_div :: "cell \<Rightarrow> cell \<Rightarrow> cell" where
  "c_div (Num a) (Num b) = (if b \<noteq> 0 then Num (a / b) else signed_inf (c_sign (Num a)))"
| "c_div NaN y = NaN"
| "c_div x NaN = NaN"
| "c_div (Num a) y = Num 0"
| "c_div x (Num b) = signed_inf (c_sign x * (if b < 0 then - 1 else 1))"
| "c_div x y = NaN"

definition of_count :: "int \<Rightarrow> cell" where
  "of_count n = Num (of_int n)"

text \<open>
  The reductions of pandas skip NaN: \<^verbatim>\<open>sum\<close> (an empty sum is 0), \<^verbatim>\<open>sum(min_count=1)\<close> (an
  empty sum is NaN) and \<^verbatim>\<open>mean\<close> (an empty mean is NaN). \<^verbatim>\<open>replace([inf, -inf], nan)\<close> is
  \<open>replace_inf\<close>.
\<close>

definition nan_sum :: "cell list \<Rightarrow> cell" where
  "nan_sum cs = foldl c_add (Num 0) (filter (\<lambda>c. c \<noteq> NaN) cs)"

definition nan_sum_min1 :: "cell list \<Rightarrow> cell" where
  "nan_sum_min1 cs = (if filter (\<lambda>c. c \<noteq> NaN) cs = [] then NaN else nan_sum cs)"

definition nan_mean :: "cell list \<Rightarrow> cell" where
  "nan_mean cs =
     (let xs = filter (\<lambda>c. c \<noteq> NaN) cs
      in if xs = [] then NaN else c_div (nan_sum xs) (Num (of_nat (length xs))))"

definition replace_inf :: "cell \<Rightarrow> cell" where
  "replace_inf c = (if c = PInf \<or> c = NInf then NaN else c)"

text \<open>\<^verbatim>\<open>str.lower\<close>, which matters here only for the comparison with ASCII words.\<close>

definition ascii_lower :: "string \<Rightarrow> string" where
  "ascii_lower s =
     map (\<lambda>c. if CHR ''A'' \<le> c \<and> c \<le> CHR ''Z'' then char_of (of_char c + (32::nat)) else c) s"

record agg_row =
  "experiment" :: string
  requested_qps :: cell
  successes :: int
  failures :: int
  duration_s :: cell
  achieved_rps_json :: cell
  ttft_mean_s :: cell
  itl_mean_s :: cell
  ttft_p50_s :: cell
  ttft_p90_s :: cell
  itl_p50_s :: cell
  itl_p90_s :: cell
  input_tokens_total :: int
  output_tokens_total :: int
  input_toks_per_sec_json :: cell
  output_toks_per_sec_json :: cell
  total_toks_per_sec_json :: cell
  total_completed :: int
  success_rate :: cell
  completed_rps_total :: cell
  completed_rps_successes :: cell
  completed_rps :: cell
  output_toks_per_sec :: cell
  input_toks_per_sec :: cell
  total_toks_per_sec :: cell
  input_toks_per_sec_plot :: cell
  output_toks_per_sec_plot :: cell
  total_toks_per_sec_plot :: cell
  norm_time_per_output_token_s :: cell

text \<open>
  \<^verbatim>\<open>groupby(["experiment", "requested_qps"])\<close>: the groups are the distinct key pairs in
  ascending order, and a row whose key is NaN belongs to no group (\<^verbatim>\<open>dropna=True\<close>, the
  default of pandas). \<open>group_members\<close> are the rows of one group, in the table's order.
\<close>

definition stage_key :: "cell stage_record \<Rightarrow> string \<times> cell" where
  "stage_key r = (stage_record.experiment r, stage_record.requested_qps r)"

definition qps_groups :: "cell stage_record list \<Rightarrow> (string \<times> cell) list" where
  "qps_groups df =
     sort_key (\<lambda>k. (fst k, asc_key (snd k)))
       (remdups (map stage_key (filter (\<lambda>r. stage_record.requested_qps r \<noteq> NaN) df)))"

definition group_members :: "cell stage_record list \<Rightarrow> string \<times> cell \<Rightarrow> cell stage_record list" where
  "group_members df k = filter (\<lambda>r. stage_key r = k) df"

text \<open>One row of \<^verbatim>\<open>aggregate_per_qps\<close>: the named aggregations, then the derived columns.\<close>

definition agg_group :: "string \<Rightarrow> string \<times> cell \<Rightarrow> cell stage_record list \<Rightarrow> agg_row" where
  "agg_group mode k g =
     (let n_succ = sum_list (map stage_record.successes g);
          n_fail = sum_list (map stage_record.failures g);
          duration = nan_sum (map stage_record.send_duration_s g);
          rps_json = nan_mean (map stage_record.achieved_rps_json g);
          in_tokens_sum = sum_list (map stage_record.input_tokens_total g);
          out_tokens_sum = sum_list (map stage_record.output_tokens_total g);
          itps_json = nan_mean (map stage_record.input_toks_per_sec_json g);
          otps_json = nan_mean (map stage_record.output_toks_per_sec_json g);
          ttps_json = nan_mean (map stage_record.total_toks_per_sec_json g);
          completed = n_succ + n_fail;
          rps_total = c_div (of_count completed) duration;
          rps_successes = c_div (of_count n_succ) duration;
          otps = c_div (of_count out_tokens_sum) duration;
          itps = c_div (of_count in_tokens_sum) duration;
          ttps = c_add otps itps
      in \<lparr>agg_row.experiment = fst k,
          agg_row.requested_qps = snd k,
          agg_row.successes = n_succ,
          agg_row.failures = n_fail,
          agg_row.duration_s = duration,
          agg_row.achieved_rps_json = rps_json,
          agg_row.ttft_mean_s = nan_mean (map stage_record.ttft_mean_s g),
          agg_row.itl_mean_s = nan_mean (map stage_record.itl_mean_s g),
          agg_row.ttft_p50_s = nan_mean (map stage_record.ttft_p50_s g),
          agg_row.ttft_p90_s = nan_mean (map stage_record.ttft_p90_s g),
          agg_row.itl_p50_s = nan_mean (map stage_record.itl_p50_s g),
          agg_row.itl_p90_s = nan_mean (map stage_record.itl_p90_s g),
          agg_row.input_tokens_total = in_tokens_sum,
          agg_row.output_tokens_total = out_tokens_sum,
          agg_row.input_toks_per_sec_json = itps_json,
          agg_row.output_toks_per_sec_json = otps_json,
          agg_row.total_toks_per_sec_json = ttps_json,
          agg_row.total_completed = completed,
          agg_row.success_rate = c_div (of_count n_succ) (of_count completed),
          agg_row.completed_rps_total = rps_total,
          agg_row.completed_rps_successes = rps_successes,
          agg_row.completed_rps =
            (if mode = ''successes'' then rps_successes
             else if mode = ''json'' then rps_json
             else rps_total),
          agg_row.output_toks_per_sec = otps,
          agg_row.input_toks_per_sec = itps,
          agg_row.total_toks_per_sec = ttps,
          agg_row.input_toks_per_sec_plot =
            (if replace_inf itps_json \<noteq> NaN then replace_inf itps_json else itps),
          agg_row.output_toks_per_sec_plot =
            (if replace_inf otps_json \<noteq> NaN then replace_inf otps_json else otps),
          agg_row.total_toks_per_sec_plot =
            (if replace_inf ttps_json \<noteq> NaN then replace_inf ttps_json else ttps),
          agg_row.norm_time_per_output_token_s =
            (if 0 < out_tokens_sum then c_div duration (of_count out_tokens_sum) else NaN)\<rparr>)"

text \<open>
  \<^verbatim>\<open>aggregate_per_qps\<close>. An empty table is returned as it is. \<^verbatim>\<open>served_mode or "total"\<close>
  takes the empty string for \<^verbatim>\<open>"total"\<close>; \<^verbatim>\<open>cap_served\<close> is not used by the source.
\<close>

definition aggregate_per_qps :: "cell stage_record list \<Rightarrow> string \<Rightarrow> bool \<Rightarrow> agg_row list" where
  "aggregate_per_qps df served_mode cap_served =
     (if df = [] then []
      else (let mode = ascii_lower (if served_mode = [] then ''total'' else served_mode)
            in map (\<lambda>k. agg_group mode k (group_members df k)) (qps_groups df)))"


fun present :: "cell list \<Rightarrow> rat list" where
  "present [] = []"
| "present (Num x # cs) = x # present cs"
| "present (c # cs) = present cs"

definition sum_present :: "cell list \<Rightarrow> cell" where
  "sum_present cs = Num (sum_list (present cs))"

definition mean_present :: "cell list \<Rightarrow> cell" where
  "mean_present cs =
     (if present cs = [] then NaN
      else Num (sum_list (present cs) / of_nat (length (present cs))))"

definition finite_or_missing :: "cell \<Rightarrow> bool" where
  "finite_or_missing c = (c \<noteq> PInf \<and> c \<noteq> NInf)"

definition stage_cells_finite :: "cell stage_record \<Rightarrow> bool" where
  "stage_cells_finite r =
     (finite_or_missing (stage_record.send_duration_s r) \<and>
      finite_or_missing (stage_record.achieved_rps_json r) \<and>
      finite_or_missing (stage_record.ttft_mean_s r) \<and>
      finite_or_missing (stage_record.ttft_p50_s r) \<and>
      finite_or_missing (stage_record.ttft_p90_s r) \<and>
      finite_or_missing (stage_record.itl_mean_s r) \<and>
      finite_or_missing (stage_record.itl_p50_s r) \<and>
      finite_or_missing (stage_record.itl_p90_s r))"

section \<open>Summary per experiment\<close>

record summary_row =
  "experiment" :: string
  qps_points :: nat
  successes :: int
  failures :: int
  duration_s :: cell
  completed_rps_overall :: cell
  output_tokens_total :: int
  input_tokens_total :: int
  output_toks_per_sec_overall :: cell
  input_toks_per_sec_overall :: cell
  ttft_mean_s_overall :: cell
  itl_mean_s_overall :: cell
  ttft_p50_s_overall :: cell
  ttft_p90_s_overall :: cell
  itl_p50_s_overall :: cell
  itl_p90_s_overall :: cell
  success_rate_overall :: cell
  ttft_delta_vs_baseline_pct_overall :: cell

text \<open>
  \<^verbatim>\<open>groupby("experiment")\<close> on the aggregated table: the groups are the distinct experiment
  labels in ascending order. \<open>weighted\<close> is the pattern
  \<^verbatim>\<open>((agg[col] * agg["successes"]).groupby(...).sum(min_count=1) / succ_sum).replace([inf, -inf], nan)\<close>
  on the rows of one experiment.
\<close>

definition experiment_rows :: "agg_row list \<Rightarrow> string \<Rightarrow> agg_row list" where
  "experiment_rows agg e = filter (\<lambda>r. agg_row.experiment r = e) agg"

definition weighted :: "(agg_row \<Rightarrow> cell) \<Rightarrow> agg_row list \<Rightarrow> cell" where
  "weighted col g =
     replace_inf
       (c_div (nan_sum_min1 (map (\<lambda>r. c_mul (col r) (of_count (agg_row.successes r))) g))
              (of_count (sum_list (map agg_row.successes g))))"

definition summary_of :: "string \<Rightarrow> string \<Rightarrow> agg_row list \<Rightarrow> summary_row" where
  "summary_of served_mode e g =
     (let total_duration = nan_sum_min1 (map agg_row.duration_s g);
          succ_sum = sum_list (map agg_row.successes g);
          fail_sum = sum_list (map agg_row.failures g);
          completed = succ_sum + fail_sum;
          out_tok_sum = sum_list (map agg_row.output_tokens_total g);
          in_tok_sum = sum_list (map agg_row.input_tokens_total g);
          otps_json_overall = nan_mean (map agg_row.output_toks_per_sec_json g);
          itps_json_overall = nan_mean (map agg_row.input_toks_per_sec_json g)
      in \<lparr>summary_row.experiment = e,
          qps_points = length (remdups (filter (\<lambda>c. c \<noteq> NaN) (map agg_row.requested_qps g))),
          summary_row.successes = succ_sum,
          summary_row.failures = fail_sum,
          summary_row.duration_s = total_duration,
          completed_rps_overall =
            (if served_mode = ''json'' then
               c_div (nan_sum_min1
                        (map (\<lambda>r. c_mul (agg_row.achieved_rps_json r) (agg_row.duration_s r)) g))
                     total_duration
             else if served_mode = ''successes'' then c_div (of_count succ_sum) total_duration
             else c_div (of_count completed) total_duration),
          summary_row.output_tokens_total = out_tok_sum,
          summary_row.input_tokens_total = in_tok_sum,
          output_toks_per_sec_overall =
            (if otps_json_overall \<noteq> NaN then otps_json_overall
             else c_div (of_count out_tok_sum) total_duration),
          input_toks_per_sec_overall =
            (if itps_json_overall \<noteq> NaN then itps_json_overall
             else c_div (of_count in_tok_sum) total_duration),
          ttft_mean_s_overall = weighted agg_row.ttft_mean_s g,
          itl_mean_s_overall = weighted agg_row.itl_mean_s g,
          ttft_p50_s_overall = weighted agg_row.ttft_p50_s g,
          ttft_p90_s_overall = weighted agg_row.ttft_p90_s g,
          itl_p50_s_overall = weighted agg_row.itl_p50_s g,
          itl_p90_s_overall = weighted agg_row.itl_p90_s g,
          success_rate_overall = c_div (of_count succ_sum) (of_count completed),
          ttft_delta_vs_baseline_pct_overall = NaN\<rparr>)"

text \<open>
  The baseline delta on the overall TTFT: filled in when the baseline is given, is one of
  the experiments, and its overall TTFT is present and not 0; \<^verbatim>\<open>pd.NA\<close> (here NaN) otherwise.
\<close>

definition with_baseline_delta :: "string option \<Rightarrow> summary_row list \<Rightarrow> summary_row list" where
  "with_baseline_delta baseline summary =
     (case baseline of
        None \<Rightarrow> summary
      | Some b \<Rightarrow>
          (case filter (\<lambda>s. summary_row.experiment s = b) summary of
             [] \<Rightarrow> summary
           | base # others \<Rightarrow>
               (let base_ttft = ttft_mean_s_overall base
                in if b \<noteq> [] \<and> base_ttft \<noteq> NaN \<and> base_ttft \<noteq> Num 0 then
                     map (\<lambda>s. s\<lparr>ttft_delta_vs_baseline_pct_overall :=
                                   c_mul (c_div (c_sub (ttft_mean_s_overall s) base_ttft) base_ttft)
                                         (Num 100)\<rparr>) summary
                   else summary)))"

definition build_summary_across_qps ::
  "agg_row list \<Rightarrow> string \<Rightarrow> bool \<Rightarrow> string option \<Rightarrow> summary_row list" where
  "build_summary_across_qps agg served_mode cap_served baseline =
     (if agg = [] then []
      else sort_key (\<lambda>s. (desc_key (output_toks_per_sec_overall s),
                           desc_key (success_rate_overall s),
                           asc_key (ttft_mean_s_overall s)))
             (with_baseline_delta baseline
                (map (\<lambda>e. summary_of served_mode e (experiment_rows agg e))
                   (sort (remdups (map agg_row.experiment agg))))))"



definition agg_cells_finite :: "agg_row \<Rightarrow> bool" where
  "agg_cells_finite r =
     (finite_or_missing (agg_row.ttft_mean_s r) \<and>
      finite_or_missing (agg_row.itl_mean_s r) \<and>
      finite_or_missing (agg_row.ttft_p50_s r) \<and>
      finite_or_missing (agg_row.ttft_p90_s r) \<and>
      finite_or_missing (agg_row.itl_p50_s r) \<and>
      finite_or_missing (agg_row.itl_p90_s r))"

section \<open>The markdown report\<close>

text \<open>
  \<^verbatim>\<open>write_markdown_report_per_qps\<close> of \<^verbatim>\<open>analyze.py\<close> collects the lines of the report in a
  list and writes them joined by newlines. A character outside ASCII in a literal of the
  source stands here as its UTF-8 bytes. The format specifications of the f-strings are
  library code: \<open>fmt_fixed n\<close> is \<^verbatim>\<open>f"{x:.nf}"\<close>, \<open>fmt_percent\<close> is \<^verbatim>\<open>f"{x:.2%}"\<close>, and \<open>str_cell\<close>
  and \<open>str_int\<close> are \<^verbatim>\<open>str\<close> of a table value and of an integer.
\<close>

record formatter =
  fmt_fixed :: "nat \<Rightarrow> cell \<Rightarrow> string"
  fmt_percent :: "cell \<Rightarrow> string"
  str_cell :: "cell \<Rightarrow> string"
  str_int :: "int \<Rightarrow> string"

definition FIELD_DESCRIPTIONS :: "(string \<times> string) list" where
  \<open>FIELD_DESCRIPTIONS =
     [(''requested_qps'',
       ''Target request rate configured for the stage (requests/sec).''),
      (''duration_s'',
       ''Total time the load generator sent requests at this QPS (seconds, aggregated).''),
      (''successes'',
       ''Number of completed requests that succeeded (aggregated).''),
      (''failures'',
       ''Number of completed requests that failed (aggregated).''),
      (''success_rate'',
       ''Fraction of completed requests that succeeded: successes / (successes + failures). This captures outcome quality, not volume of work.''),
      (''completed_rps'',
       ''Completed requests per second over the send window (basis set by --served-mode): total=(successes+failures)/s, successes=successes/s, json=value recorded in the file.''),
      (''output_tokens_total'',
       ''Total number of output tokens generated (from per-request files; successes only).''),
      (''input_tokens_total'',
       ''Total number of input tokens ingested (from per-request files; successes only).''),
      (''output_toks_per_sec'',
       ''Primary throughput metric: output tokens generated per second across the stage window.''),
      (''input_toks_per_sec'',
       ''Input tokens processed per second across the stage window.''),
      (''norm_time_per_output_token_s'',
       ''Normalized time per output token (seconds/token). Lower is better.''),
      (''ttft_mean_s'',
       ''Mean time to first token across successful requests (seconds). Lower is better.''),
      (''ttft_p50_s'',
       ''TTFT median (p50) across successful requests (seconds). Lower is better.''),
      (''ttft_p90_s'',
       ''TTFT 90th percentile (p90) across successful requests (seconds). Lower is better.''),
      (''itl_mean_s'',
       ''Mean inter-token latency across successful requests (seconds). Lower is better.''),
      (''itl_p50_s'',
       ''Inter-token latency median (p50) across successful requests (seconds). Lower is better.''),
      (''itl_p90_s'',
       ''Inter-token latency 90th percentile (p90) across successful requests (seconds). Lower is better.''),
      (''ttft_delta_vs_baseline_pct'',
       ''TTFT change vs baseline experiment: (TTFT - baseline_TTFT) / baseline_TTFT '' @ [CHR 0xC3] @ [CHR 0x97] @ '' 100. Negative = faster/better; positive = slower.''),
      (''achieved_rps_json'',
       ''Throughput value recorded inside each stage file (successes.throughput.requests_per_sec). Useful for comparison/debugging; may omit failed requests depending on how the file was produced.'')]\<close>

definition read_text_if_exists :: "pyenv \<Rightarrow> string option \<Rightarrow> string option" where
  "read_text_if_exists env path =
     (case path of
        None \<Rightarrow> None
      | Some p \<Rightarrow> if p \<noteq> [] then files env p else None)"

text \<open>\<^verbatim>\<open>read_text_if_exists(path) or "(file unreadable)"\<close>.\<close>

definition text_or_unreadable :: "pyenv \<Rightarrow> string \<Rightarrow> string" where
  "text_or_unreadable env path =
     (case read_text_if_exists env (Some path) of
        None \<Rightarrow> ''(file unreadable)''
      | Some t \<Rightarrow> if t \<noteq> [] then t else ''(file unreadable)'')"

text \<open>\<^verbatim>\<open>"\n".join(lines)\<close>.\<close>

fun join_lines :: "string list \<Rightarrow> string" where
  "join_lines [] = []"
| "join_lines [l] = l"
| "join_lines (l # ls) = l @ [CHR 0x0A] @ join_lines ls"

text \<open>The charts section: a heading and an image tag for every chart file that exists.\<close>

definition chart_lines ::
  "pyenv \<Rightarrow> formatter \<Rightarrow> string \<Rightarrow> int \<Rightarrow> (string \<times> string) list \<Rightarrow> string list" where
  \<open>chart_lines env fmt out_dir img_width_px charts =
     (if charts = [] then []
      else (''## Charts'' @ [CHR 0x0A]) #
           concat (map (\<lambda>(chart_title, abs_path).
                     if files env abs_path \<noteq> None
                     then [''### '' @ chart_title @ [CHR 0x0A],
                           ''<img src="'' @ relpath env abs_path out_dir @ ''" alt="'' @ chart_title @
                           ''" width="'' @ str_int fmt img_width_px @ ''"/>'' @ [CHR 0x0A]]
                     else []) charts))\<close>

definition table_header :: "string list" where
  \<open>table_header =
     [''| Experiment | Output toks/s | Requests/s | Success Rate | TTFT mean (s) | TTFT p50/ p90 (s) | ITL mean (s) | ITL p50/ p90 (s) |'',
      ''|---|---:|---:|---:|---:|---:|---:|---:|'']\<close>

definition how_to_read_lines :: "string list" where
  \<open>how_to_read_lines =
     [''### How to read this report (quick)'' @ [CHR 0x0A],
      ''- **Output tokens/sec** is the primary throughput metric (higher is better).'' @ [CHR 0x0A],
      ''- **Requests/sec** shows the rate of completed requests.'' @ [CHR 0x0A],
      ''- **Success Rate** reflects outcome quality, not volume.'' @ [CHR 0x0A],
      ''- **TTFT** is time to first token; **ITL** is the gap between tokens (both lower is better).'' @ [CHR 0x0A],
      []]\<close>

definition field_description_lines :: "string list" where
  \<open>field_description_lines =
     (''### Field descriptions'' @ [CHR 0x0A]) #
     map (\<lambda>(k, desc). ''- **'' @ k @ ''** '' @ [CHR 0xE2] @ [CHR 0x80] @ [CHR 0x94] @ '' '' @ desc) FIELD_DESCRIPTIONS @ [[]]\<close>

text \<open>
  The cells of a table row: an empty cell for a missing value (\<^verbatim>\<open>pd.isna\<close>), \<^verbatim>\<open>n/a\<close> for a
  missing success rate, and both percentiles or neither.
\<close>

definition cell_fixed :: "formatter \<Rightarrow> nat \<Rightarrow> cell \<Rightarrow> string" where
  "cell_fixed fmt n x = (if x = NaN then [] else fmt_fixed fmt n x)"

definition cell_rate :: "formatter \<Rightarrow> cell \<Rightarrow> string" where
  "cell_rate fmt x = (if x \<noteq> NaN then fmt_percent fmt x else ''n/a'')"

definition cell_pair :: "formatter \<Rightarrow> nat \<Rightarrow> cell \<Rightarrow> cell \<Rightarrow> string" where
  "cell_pair fmt n p50 p90 =
     (if p50 = NaN \<or> p90 = NaN then []
      else fmt_fixed fmt n p50 @ ''/'' @ fmt_fixed fmt 3 p90)"

definition table_row :: "string list \<Rightarrow> string" where
  "table_row cells = concat (map (\<lambda>c. ''| '' @ c @ '' '') cells) @ ''|''"

definition summary_table_row :: "formatter \<Rightarrow> summary_row \<Rightarrow> string" where
  "summary_table_row fmt r =
     table_row
       [summary_row.experiment r,
        cell_fixed fmt 1 (output_toks_per_sec_overall r),
        cell_fixed fmt 3 (completed_rps_overall r),
        cell_rate fmt (success_rate_overall r),
        cell_fixed fmt 3 (ttft_mean_s_overall r),
        cell_pair fmt 3 (ttft_p50_s_overall r) (ttft_p90_s_overall r),
        cell_fixed fmt 3 (itl_mean_s_overall r),
        cell_pair fmt 4 (itl_p50_s_overall r) (itl_p90_s_overall r)]"

definition qps_table_row :: "formatter \<Rightarrow> agg_row \<Rightarrow> string" where
  "qps_table_row fmt r =
     table_row
       [agg_row.experiment r,
        cell_fixed fmt 1 (output_toks_per_sec_plot r),
        cell_fixed fmt 3 (completed_rps r),
        cell_rate fmt (agg_row.success_rate r),
        cell_fixed fmt 3 (agg_row.ttft_mean_s r),
        cell_pair fmt 3 (agg_row.ttft_p50_s r) (agg_row.ttft_p90_s r),
        cell_fixed fmt 3 (agg_row.itl_mean_s r),
        cell_pair fmt 4 (agg_row.itl_p50_s r) (agg_row.itl_p90_s r)]"

definition summary_lines ::
  "formatter \<Rightarrow> agg_row list \<Rightarrow> string \<Rightarrow> bool \<Rightarrow> string option \<Rightarrow> string list" where
  \<open>summary_lines fmt agg served_mode cap_served baseline =
     [''### Summary across QPS'' @ [CHR 0x0A], []] @ table_header @
     map (summary_table_row fmt) (build_summary_across_qps agg served_mode cap_served baseline)\<close>

text \<open>
  The per-QPS tables: \<^verbatim>\<open>agg.groupby("requested_qps")\<close> gives the distinct present rates in
  ascending order, and the rows of each are sorted for display.
\<close>

definition qps_table :: "formatter \<Rightarrow> agg_row list \<Rightarrow> cell \<Rightarrow> string list" where
  \<open>qps_table fmt agg qps =
     [[CHR 0x0A] @ ''### QPS = '' @ str_cell fmt qps @ [CHR 0x0A], []] @ table_header @
     map (qps_table_row fmt)
       (sort_key (\<lambda>r. (desc_key (output_toks_per_sec r), desc_key (agg_row.success_rate r),
                         asc_key (agg_row.ttft_mean_s r)))
          (filter (\<lambda>r. agg_row.requested_qps r = qps) agg))\<close>

definition per_qps_lines :: "formatter \<Rightarrow> agg_row list \<Rightarrow> string list" where
  \<open>per_qps_lines fmt agg =
     ([CHR 0x0A] @ ''## Per-QPS Results (sorted by **Output toks/s**, then **Success Rate**, then **TTFT**)'' @ [CHR 0x0A]) #
     concat (map (qps_table fmt agg)
               (sort_key asc_key
                  (remdups (filter (\<lambda>c. c \<noteq> NaN) (map agg_row.requested_qps agg)))))\<close>

text \<open>The configuration section, written whether or not there is data.\<close>

definition config_lines :: "pyenv \<Rightarrow> string option \<Rightarrow> (string \<times> string) list \<Rightarrow> string list" where
  \<open>config_lines env profile_yaml_path epp_configs =
     [[CHR 0x0A] @ ''## Configuration'' @ [CHR 0x0A],
      ''### Workload profile (shown once)'' @ [CHR 0x0A]] @
     (case profile_yaml_path of
        None \<Rightarrow> [''_No profile YAML found._'' @ [CHR 0x0A]]
      | Some p \<Rightarrow>
          if p \<noteq> [] then [''```yaml'', rstrip (text_or_unreadable env p), ''```'' @ [CHR 0x0A]]
          else [''_No profile YAML found._'' @ [CHR 0x0A]]) @
     [''### EPP config per experiment'' @ [CHR 0x0A]] @
     (if epp_configs = [] then [''_No epp_config.yaml files found under experiments._'' @ [CHR 0x0A]]
      else concat (map (\<lambda>(label, epp_path).
                     [''**'' @ label @ ''**'' @ [CHR 0x0A], ''```yaml'',
                      rstrip (text_or_unreadable env epp_path), ''```'' @ [CHR 0x0A]])
                   (sort_key fst epp_configs)))\<close>

definition report_lines ::
  "pyenv \<Rightarrow> formatter \<Rightarrow> agg_row list \<Rightarrow> string \<Rightarrow> (string \<times> string) list \<Rightarrow> string option \<Rightarrow>
   (string \<times> string) list \<Rightarrow> int \<Rightarrow> string option \<Rightarrow> string \<Rightarrow> bool \<Rightarrow> string \<Rightarrow> string list" where
  \<open>report_lines env fmt agg out_dir charts profile_yaml_path epp_configs img_width_px baseline
       served_mode cap_served title =
     [''# '' @ title @ [CHR 0x0A]] @
     (if agg = [] then [''_No data found._'' @ [CHR 0x0A]]
      else chart_lines env fmt out_dir img_width_px charts @
           how_to_read_lines @
           field_description_lines @
           summary_lines fmt agg served_mode cap_served baseline @
           per_qps_lines fmt agg) @
     config_lines env profile_yaml_path epp_configs\<close>

text \<open>The function returns the path of the report; the second component is the text written.\<close>

definition write_markdown_report_per_qps ::
  "pyenv \<Rightarrow> formatter \<Rightarrow> agg_row list \<Rightarrow> string \<Rightarrow> (string \<times> string) list \<Rightarrow> string option \<Rightarrow>
   (string \<times> string) list \<Rightarrow> int \<Rightarrow> string option \<Rightarrow> string \<Rightarrow> bool \<Rightarrow> string \<Rightarrow> string \<times> string" where
  "write_markdown_report_per_qps env fmt agg out_dir charts profile_yaml_path epp_configs
       img_width_px baseline served_mode cap_served title =
     (path_join out_dir ''benchmark_report.md'',
      join_lines (report_lines env fmt agg out_dir charts profile_yaml_path epp_configs
                    img_width_px baseline served_mode cap_served title))"


definition charts_heading :: string where
  \<open>charts_heading = ''## Charts'' @ [CHR 0x0A]\<close>

definition summary_heading :: string where
  \<open>summary_heading = ''### Summary across QPS'' @ [CHR 0x0A]\<close>

definition per_qps_heading :: string where
  \<open>per_qps_heading = [CHR 0x0A] @ ''## Per-QPS Results (sorted by **Output toks/s**, then **Success Rate**, then **TTFT**)'' @ [CHR 0x0A]\<close>


section \<open>Sample inputs\<close>

text \<open>
  A small run directory on which the definitions are evaluated: the texts of its files,
  and for each text the value \<^verbatim>\<open>json.loads\<close> returns on it (every other text is not JSON).
\<close>

definition demo_line1 :: string where
  \<open>demo_line1 = ''{"start_time": 1, "info": {"input_tokens": 3, "output_tokens": 2, "output_token_times": [2, 4]}}''\<close>

definition demo_line3 :: string where
  \<open>demo_line3 = ''{"start_time": 1, "info": {"input_tokens": 5, "output_tokens": 2, "output_token_times": [3, 3, 4, 4]}}''\<close>

definition demo_requests_text :: string where
  "demo_requests_text =
     demo_line1 @ '','' @ [CHR 0x0A] @ ''not json'' @ [CHR 0x0A] @ ''  '' @ demo_line3 @ [CHR 0x0A]"

definition demo_request :: "int \<Rightarrow> int list \<Rightarrow> json" where
  "demo_request n ts =
     JObj [(''start_time'', JInt 1),
           (''info'', JObj [(''input_tokens'', JInt n), (''output_tokens'', JInt 2),
                            (''output_token_times'', JArr (map JInt ts))])]"

definition demo_stage_text1 :: string where
  \<open>demo_stage_text1 = ''{"load_summary": {"requested_rate": 5, "send_duration": 10}, "successes": {"count": 8, "latency": {"time_to_first_token": {"mean": 0.5, "p50": 0.0, "p90": 0.7}, "inter_token_latency": {"mean": 0.1, "p90": 0.2}}, "throughput": {"requests_per_sec": 0.8}}, "failures": {"count": 2}}''\<close>

definition demo_stage_json1 :: json where
  "demo_stage_json1 =
     JObj [(''load_summary'', JObj [(''requested_rate'', JInt 5), (''send_duration'', JInt 10)]),
           (''successes'',
            JObj [(''count'', JInt 8),
                  (''latency'',
                   JObj [(''time_to_first_token'',
                          JObj [(''mean'', JFloat (1 / 2)), (''p50'', JFloat 0),
                                (''p90'', JFloat (7 / 10))]),
                         (''inter_token_latency'',
                          JObj [(''mean'', JFloat (1 / 10)), (''p90'', JFloat (1 / 5))])]),
                  (''throughput'', JObj [(''requests_per_sec'', JFloat (4 / 5))])]),
           (''failures'', JObj [(''count'', JInt 2)])]"

definition demo_stage_text2 :: string where
  \<open>demo_stage_text2 = ''{"load_summary": {"requested_rate": 5''\<close>

definition demo_stage_text3 :: string where
  \<open>demo_stage_text3 = ''{"successes": {"count": 2}, "failures": {"count": -1}}''\<close>

definition demo_stage_json3 :: json where
  "demo_stage_json3 =
     JObj [(''successes'', JObj [(''count'', JInt 2)]),
           (''failures'', JObj [(''count'', JInt (- 1))])]"

definition demo_env :: pyenv where
  "demo_env =
     \<lparr>files =
        map_of [(''/b/e1/per_request_lifecycle_metrics.json'', demo_requests_text),
                (''/b/e1/stage_0_lifecycle_metrics.json'', demo_stage_text1),
                (''/b/e2/stage_1_lifecycle_metrics.json'', demo_stage_text2),
                (''/b/e3/stage_0_lifecycle_metrics.json'', demo_stage_text3)],
      json_loads =
        map_of [(demo_line1, demo_request 3 [2, 4]), (demo_line3, demo_request 5 [3, 3, 4, 4]),
                (demo_stage_text1, demo_stage_json1), (demo_stage_text3, demo_stage_json3)],
      int_of_str = (\<lambda>s. None),
      float_of_str = (\<lambda>s. None),
      relpath = (\<lambda>p start. drop (length start + 1) p),
      glob_matches =
        (\<lambda>pattern.
           if pattern = ''/b/**/stage_*_lifecycle_metrics.json''
           then [''/b/e3/stage_0_lifecycle_metrics.json'', ''/b/e1/stage_0_lifecycle_metrics.json'',
                 ''/b/e2/stage_1_lifecycle_metrics.json'']
           else [])\<rparr>"

definition demo_record1 :: "json stage_record" where
  "demo_record1 =
     \<lparr>stage_record.experiment = ''e1'', stage_index = Some 0, stage_record.requested_qps = JInt 5,
      send_duration_s = JInt 10, stage_record.achieved_rps_json = JFloat (4 / 5),
      stage_record.input_toks_per_sec_json = JNull, stage_record.output_toks_per_sec_json = JNull,
      stage_record.total_toks_per_sec_json = JNull, stage_record.ttft_mean_s = JFloat (1 / 2),
      stage_record.ttft_p50_s = JFloat (3 / 2), stage_record.ttft_p90_s = JFloat (7 / 10),
      stage_record.itl_mean_s = JFloat (1 / 10), stage_record.itl_p50_s = JFloat (3 / 2),
      stage_record.itl_p90_s = JFloat (1 / 5), request_latency_p50_s = JNull,
      stage_record.successes = 8, stage_record.failures = 2, stage_record.success_rate = Some (4 / 5),
      stage_record.input_tokens_total = 8, stage_record.output_tokens_total = 4,
      source_path = ''/b/e1/stage_0_lifecycle_metrics.json''\<rparr>"

definition demo_record3 :: "json stage_record" where
  "demo_record3 =
     \<lparr>stage_record.experiment = ''e3'', stage_index = Some 0, stage_record.requested_qps = JNull,
      send_duration_s = JNull, stage_record.achieved_rps_json = JNull,
      stage_record.input_toks_per_sec_json = JNull, stage_record.output_toks_per_sec_json = JNull,
      stage_record.total_toks_per_sec_json = JNull, stage_record.ttft_mean_s = JNull,
      stage_record.ttft_p50_s = JNull, stage_record.ttft_p90_s = JNull, stage_record.itl_mean_s = JNull,
      stage_record.itl_p50_s = JNull, stage_record.itl_p90_s = JNull, request_latency_p50_s = JNull,
      stage_record.successes = 2, stage_record.failures = - 1, stage_record.success_rate = Some 2,
      stage_record.input_tokens_total = 0, stage_record.output_tokens_total = 0,
      source_path = ''/b/e3/stage_0_lifecycle_metrics.json''\<rparr>"














section \<open>Properties\<close>

subsection \<open>Per-request statistics\<close>

text \<open>
  Claim C7. For every stage directory with no companion file
  \<^verbatim>\<open>per_request_lifecycle_metrics.json\<close>, reading the per-request statistics returns
  \<open>input_tokens_total = 0\<close>, \<open>output_tokens_total = 0\<close> and \<open>None\<close> for the four computed
  TTFT and ITL percentiles. No error is raised: the function returns a statistics record
  on every input.
\<close>

theorem read_per_request_stats_no_file:
  assumes "files env (path_join stage_dir ''per_request_lifecycle_metrics.json'') = None"
  shows "read_per_request_stats env stage_dir =
           \<lparr>pr_stats.input_tokens_total = 0, pr_stats.output_tokens_total = 0,
            ttft_p50_s_computed = None, ttft_p90_s_computed = None,
            itl_p50_s_computed = None, itl_p90_s_computed = None\<rparr>"
  using assms by (simp add: read_per_request_stats_def)

theorem read_per_request_stats_no_file_witness:
  "files demo_env (path_join ''/b/e2'' ''per_request_lifecycle_metrics.json'') = None \<and>
   read_per_request_stats demo_env ''/b/e2'' =
     \<lparr>pr_stats.input_tokens_total = 0, pr_stats.output_tokens_total = 0,
      ttft_p50_s_computed = None, ttft_p90_s_computed = None,
      itl_p50_s_computed = None, itl_p90_s_computed = None\<rparr>"
proof -
  have h: "files demo_env (path_join ''/b/e2'' ''per_request_lifecycle_metrics.json'') = None"
    by code_simp
  from read_per_request_stats_no_file [OF h] h show ?thesis by simp
qed

text \<open>The fallback loop yields the same objects with and without the lines that do not parse.\<close>

lemma iter_ndjson_filter:
  "iter_ndjson env (filter (line_parses env) ls) = iter_ndjson env ls"
  by (induction ls) (auto simp: line_parses_def Let_def split: option.splits)

lemma iter_ndjson_map:
  "iter_ndjson env ls =
     map (\<lambda>line. the (json_loads env (rstrip_char CHR '','' (strip line))))
       (filter (\<lambda>line. \<not> line_ignored line \<and> line_parses env line) ls)"
  by (induction ls) (auto simp: line_parses_def line_ignored_def Let_def split: option.splits)

lemma iter_requests_by_line:
  "scanned_by_line env text \<Longrightarrow> iter_requests env text = iter_ndjson env (splitlines text)"
  by (auto simp: scanned_by_line_def iter_requests_def split: list.splits option.splits)

text \<open>
  Claim C5. When the text of the per-request file is scanned line by line as
  newline-delimited JSON, a line that fails to parse (after stripping whitespace and
  trailing commas) is skipped: the objects yielded are those yielded for the text's
  lines with the unparseable lines left out, and they are the parsed values, in order,
  of the lines that parse and are neither blank nor a bare bracket.
\<close>

theorem iter_requests_skips_unparseable:
  assumes "scanned_by_line env text"
  shows "iter_requests env text = iter_ndjson env (filter (line_parses env) (splitlines text)) \<and>
         iter_requests env text =
           map (\<lambda>line. the (json_loads env (rstrip_char CHR '','' (strip line))))
             (filter (\<lambda>line. \<not> line_ignored line \<and> line_parses env line) (splitlines text))"
proof -
  have "iter_requests env text = iter_ndjson env (splitlines text)"
    using assms by (rule iter_requests_by_line)
  then show ?thesis
    using iter_ndjson_filter [of env "splitlines text"] iter_ndjson_map [of env "splitlines text"]
    by simp
qed

theorem iter_requests_skips_unparseable_witness:
  "scanned_by_line demo_env demo_requests_text \<and>
   splitlines demo_requests_text = [demo_line1 @ '','', ''not json'', ''  '' @ demo_line3] \<and>
   filter (line_parses demo_env) (splitlines demo_requests_text) =
     [demo_line1 @ '','', ''  '' @ demo_line3] \<and>
   iter_requests demo_env demo_requests_text =
     iter_ndjson demo_env [demo_line1 @ '','', ''  '' @ demo_line3] \<and>
   iter_requests demo_env demo_requests_text =
     [demo_request 3 [2, 4], demo_request 5 [3, 3, 4, 4]]"
proof -
  have h: "scanned_by_line demo_env demo_requests_text"
    by code_simp
  have s: "splitlines demo_requests_text = [demo_line1 @ '','', ''not json'', ''  '' @ demo_line3]"
    by code_simp
  have f: "filter (line_parses demo_env) (splitlines demo_requests_text) =
             [demo_line1 @ '','', ''  '' @ demo_line3]"
    by code_simp
  have v: "iter_ndjson demo_env [demo_line1 @ '','', ''  '' @ demo_line3] =
             [demo_request 3 [2, 4], demo_request 5 [3, 3, 4, 4]]"
    by code_simp
  from iter_requests_skips_unparseable [OF h] h s f v show ?thesis by simp
qed











subsection \<open>Stage records\<close>

lemma py_bind_InrE:
  assumes "py_bind m f = Inr r"
  obtains x where "m = Inr x" and "f x = Inr r"
  using assms by (cases m) (simp_all add: py_bind_def)

lemma demo_parse1:
  "parse_stage_file demo_env ''/b'' ''/b/e1/stage_0_lifecycle_metrics.json'' = Inr demo_record1"
  by code_simp

lemma demo_parse3:
  "parse_stage_file demo_env ''/b'' ''/b/e3/stage_0_lifecycle_metrics.json'' = Inr demo_record3"
  by code_simp

lemma parse_stage_file_rate:
  assumes "parse_stage_file env base_dir path = Inr r"
  shows "stage_record.success_rate r =
           (if stage_record.successes r + stage_record.failures r \<noteq> 0
            then Some (of_int (stage_record.successes r) / of_int (stage_record.successes r + stage_record.failures r)) else None)"
  using assms
  by (auto simp: parse_stage_file_def Let_def split: option.splits elim!: py_bind_InrE)

text \<open>
  Claim C10, amended. For every stage file, the stage record's \<open>success_rate\<close> is \<open>None\<close>
  exactly when \<open>successes + failures = 0\<close>, and otherwise equals
  \<open>successes / (successes + failures)\<close>, so the division is never performed with a zero
  denominator; the rate lies in \<open>[0, 1]\<close> whenever both counts are non-negative.
\<close>

theorem stage_success_rate:
  assumes "parse_stage_file env base_dir path = Inr r"
  shows "(stage_record.success_rate r = None \<longleftrightarrow> stage_record.successes r + stage_record.failures r = 0) \<and>
         (stage_record.successes r + stage_record.failures r \<noteq> 0 \<longrightarrow>
            stage_record.success_rate r = Some (of_int (stage_record.successes r) / of_int (stage_record.successes r + stage_record.failures r))) \<and>
         (0 \<le> stage_record.successes r \<and> 0 \<le> stage_record.failures r \<longrightarrow>
            (\<forall>v. stage_record.success_rate r = Some v \<longrightarrow> 0 \<le> v \<and> v \<le> 1))"
proof -
  note rate = parse_stage_file_rate [OF assms]
  have "0 \<le> v \<and> v \<le> 1"
    if nn: "0 \<le> stage_record.successes r" "0 \<le> stage_record.failures r" and v: "stage_record.success_rate r = Some v" for v
  proof -
    have tot: "stage_record.successes r + stage_record.failures r \<noteq> 0" using rate v by (auto split: if_splits)
    then have pos: "0 < stage_record.successes r + stage_record.failures r" using nn by linarith
    have "v = of_int (stage_record.successes r) / of_int (stage_record.successes r + stage_record.failures r)"
      using rate v tot by simp
    moreover have "(of_int (stage_record.successes r) :: rat) \<le> of_int (stage_record.successes r + stage_record.failures r)"
      using nn by simp
    ultimately show ?thesis using nn pos by (simp add: divide_le_eq_1)
  qed
  then show ?thesis using rate by auto
qed

theorem stage_success_rate_witness:
  "parse_stage_file demo_env ''/b'' ''/b/e1/stage_0_lifecycle_metrics.json'' = Inr demo_record1 \<and>
   stage_record.successes demo_record1 = 8 \<and> stage_record.failures demo_record1 = 2 \<and>
   stage_record.success_rate demo_record1 = Some (4 / 5) \<and> (0::rat) \<le> 4 / 5 \<and> (4 / 5 :: rat) \<le> 1"
  using stage_success_rate [OF demo_parse1] demo_parse1 by (simp add: demo_record1_def)

text \<open>
  The claim as first stated, with the rate in \<open>[0, 1]\<close> for every stage file, fails on a
  stage document whose counts are 2 successes and -1 failures: the rate is 2.
\<close>

theorem stage_success_rate_counterexample:
  "json_loads demo_env demo_stage_text3 = Some demo_stage_json3 \<and>
   parse_stage_file demo_env ''/b'' ''/b/e3/stage_0_lifecycle_metrics.json'' = Inr demo_record3 \<and>
   stage_record.successes demo_record3 = 2 \<and> stage_record.failures demo_record3 = - 1 \<and>
   stage_record.success_rate demo_record3 = Some 2 \<and> \<not> ((2::rat) \<le> 1)"
proof -
  have "json_loads demo_env demo_stage_text3 = Some demo_stage_json3" by code_simp
  then show ?thesis using demo_parse3 by (simp add: demo_record3_def)
qed

text \<open>The value that the chain of \<^verbatim>\<open>.get(key, {}) or {}\<close> reaches is the value at the path.\<close>

lemma get_or_lookup_path:
  assumes "get_or d k (JObj []) = Inr v" and "ks \<noteq> []"
  shows "lookup_path d (k # ks) = lookup_path v ks"
proof -
  obtain kv where d: "d = JObj kv" using assms(1) by (cases d) (simp_all add: get_or_def)
  obtain k' ks' where ks: "ks = k' # ks'" using assms(2) by (cases ks) auto
  show ?thesis
  proof (cases "map_of kv k")
    case None
    then show ?thesis using assms(1) d ks by (auto simp: get_or_def)
  next
    case (Some w)
    then show ?thesis using assms(1) d ks
      by (cases w) (auto simp: get_or_def split: if_splits)
  qed
qed

lemma py_get_lookup_path:
  assumes "py_get d k JNull = Inr x"
  shows "lookup_path d [k] = x"
  using assms by (cases d) (auto split: option.splits)

lemma fallback_choice:
  assumes "fallback env j c = Inr y"
  shows "y = percentile_choice env j c"
  using assms
  by (auto simp: fallback_def percentile_choice_def split: if_splits option.splits
           elim!: py_bind_InrE)

lemma lookup_percentile:
  assumes "get_or data ''successes'' (JObj []) = Inr succ"
    and "get_or succ ''latency'' (JObj []) = Inr lat"
    and "get_or lat which (JObj []) = Inr m"
    and "py_get m p JNull = Inr x"
  shows "lookup_path data [''successes'', ''latency'', which, p] = x"
proof -
  have "lookup_path data [''successes'', ''latency'', which, p] = lookup_path succ [''latency'', which, p]"
    using assms(1) by (rule get_or_lookup_path) simp
  also have "\<dots> = lookup_path lat [which, p]"
    using assms(2) by (rule get_or_lookup_path) simp
  also have "\<dots> = lookup_path m [p]"
    using assms(3) by (rule get_or_lookup_path) simp
  also have "\<dots> = x"
    using assms(4) by (rule py_get_lookup_path)
  finally show ?thesis .
qed

text \<open>
  Claim C4. For every stage file, the stage record's \<open>ttft_p50_s\<close> (and likewise
  \<open>ttft_p90_s\<close>, \<open>itl_p50_s\<close>, \<open>itl_p90_s\<close>) is the percentile recomputed from the companion
  per-request log when the stage document's percentile is absent or 0.0 and the
  recomputed value exists, and the value read from the stage document in every other
  case.
\<close>

theorem stage_percentile_fallback:
  assumes "files env path = Some text"
    and "json_loads env text = Some data"
    and "parse_stage_file env base_dir path = Inr r"
  shows "stage_record.ttft_p50_s r =
           percentile_choice env
             (lookup_path data [''successes'', ''latency'', ''time_to_first_token'', ''p50''])
             (ttft_p50_s_computed (read_per_request_stats env (dirname path))) \<and>
         stage_record.ttft_p90_s r =
           percentile_choice env
             (lookup_path data [''successes'', ''latency'', ''time_to_first_token'', ''p90''])
             (ttft_p90_s_computed (read_per_request_stats env (dirname path))) \<and>
         stage_record.itl_p50_s r =
           percentile_choice env
             (lookup_path data [''successes'', ''latency'', ''inter_token_latency'', ''p50''])
             (itl_p50_s_computed (read_per_request_stats env (dirname path))) \<and>
         stage_record.itl_p90_s r =
           percentile_choice env
             (lookup_path data [''successes'', ''latency'', ''inter_token_latency'', ''p90''])
             (itl_p90_s_computed (read_per_request_stats env (dirname path)))"
  using assms
  by (auto simp: parse_stage_file_def Let_def lookup_percentile
           dest!: fallback_choice elim!: py_bind_InrE)

theorem stage_percentile_fallback_witness:
  "files demo_env ''/b/e1/stage_0_lifecycle_metrics.json'' = Some demo_stage_text1 \<and>
   json_loads demo_env demo_stage_text1 = Some demo_stage_json1 \<and>
   parse_stage_file demo_env ''/b'' ''/b/e1/stage_0_lifecycle_metrics.json'' = Inr demo_record1 \<and>
   lookup_path demo_stage_json1 [''successes'', ''latency'', ''time_to_first_token'', ''p50'']
     = JFloat 0 \<and>
   ttft_p50_s_computed (read_per_request_stats demo_env ''/b/e1'') = Some (3 / 2) \<and>
   stage_record.ttft_p50_s demo_record1 = JFloat (3 / 2) \<and>
   lookup_path demo_stage_json1 [''successes'', ''latency'', ''time_to_first_token'', ''p90'']
     = JFloat (7 / 10) \<and>
   stage_record.ttft_p90_s demo_record1 = JFloat (7 / 10) \<and>
   lookup_path demo_stage_json1 [''successes'', ''latency'', ''inter_token_latency'', ''p50'']
     = JNull \<and>
   stage_record.itl_p50_s demo_record1 = JFloat (3 / 2)"
proof -
  have f: "files demo_env ''/b/e1/stage_0_lifecycle_metrics.json'' = Some demo_stage_text1"
    by code_simp
  have j: "json_loads demo_env demo_stage_text1 = Some demo_stage_json1"
    by code_simp
  have l1: "lookup_path demo_stage_json1
              [''successes'', ''latency'', ''time_to_first_token'', ''p50''] = JFloat 0"
    by code_simp
  have l2: "lookup_path demo_stage_json1
              [''successes'', ''latency'', ''time_to_first_token'', ''p90''] = JFloat (7 / 10)"
    by code_simp
  have l3: "lookup_path demo_stage_json1
              [''successes'', ''latency'', ''inter_token_latency'', ''p50''] = JNull"
    by code_simp
  have c: "ttft_p50_s_computed (read_per_request_stats demo_env ''/b/e1'') = Some (3 / 2)"
    by code_simp
  from stage_percentile_fallback [OF f j demo_parse1] f j l1 l2 l3 c demo_parse1
  show ?thesis by (simp add: demo_record1_def)
qed

text \<open>An exception of one file is the exception of the whole list.\<close>

lemma parse_all_raises:
  assumes "p \<in> set ps" and "isl (parse_stage_file env base_dir p)"
  shows "isl (parse_all env base_dir ps)"
  using assms
proof (induction ps)
  case Nil
  then show ?case by simp
next
  case (Cons q qs)
  show ?case
  proof (cases "parse_stage_file env base_dir q")
    case (Inl e)
    then show ?thesis by (simp add: py_bind_def)
  next
    case (Inr r)
    then have "p \<in> set qs" using Cons.prems by auto
    then have "isl (parse_all env base_dir qs)" using Cons.IH Cons.prems(2) by simp
    then show ?thesis using Inr by (cases "parse_all env base_dir qs") (simp_all add: py_bind_def)
  qed
qed

text \<open>
  Claim C1, amended. For every stage metrics file discovered under the base directory
  whose content is not valid JSON, \<^verbatim>\<open>parse_stage_file\<close> raises the decoding error and
  \<^verbatim>\<open>build_stage_df\<close> does not catch it: building the stage table ends with an exception
  (\<open>isl\<close>: the result is an \<open>Inl\<close>) and yields no records, whatever the other stage files
  hold.
\<close>

theorem build_stage_df_malformed_raises:
  assumes "p \<in> set (find_stage_files env base_dir)"
    and "files env p = Some text"
    and "json_loads env text = None"
  shows "parse_stage_file env base_dir p = Inl JSONDecodeError \<and>
         isl (build_stage_df env base_dir)"
proof -
  have e: "parse_stage_file env base_dir p = Inl JSONDecodeError"
    using assms(2,3) by (simp add: parse_stage_file_def)
  then have "isl (parse_all env base_dir (find_stage_files env base_dir))"
    using assms(1) by (intro parse_all_raises [of p]) simp_all
  then show ?thesis using e
    by (cases "parse_all env base_dir (find_stage_files env base_dir)")
       (simp_all add: build_stage_df_def py_bind_def)
qed

theorem build_stage_df_malformed_raises_witness:
  "''/b/e2/stage_1_lifecycle_metrics.json'' \<in> set (find_stage_files demo_env ''/b'') \<and>
   files demo_env ''/b/e2/stage_1_lifecycle_metrics.json'' = Some demo_stage_text2 \<and>
   json_loads demo_env demo_stage_text2 = None \<and>
   parse_stage_file demo_env ''/b'' ''/b/e2/stage_1_lifecycle_metrics.json'' = Inl JSONDecodeError \<and>
   isl (build_stage_df demo_env ''/b'')"
proof -
  have m: "''/b/e2/stage_1_lifecycle_metrics.json'' \<in> set (find_stage_files demo_env ''/b'')"
    by code_simp
  have f: "files demo_env ''/b/e2/stage_1_lifecycle_metrics.json'' = Some demo_stage_text2"
    by code_simp
  have j: "json_loads demo_env demo_stage_text2 = None"
    by code_simp
  from build_stage_df_malformed_raises [OF m f j] m f j show ?thesis by simp
qed

text \<open>
  The claim as first stated, that a stage file which is not valid JSON is skipped without
  an error and the records of the other files are built, fails on a run directory with
  two well-formed stage files and a truncated one: no table is built.
\<close>

theorem build_stage_df_malformed_counterexample:
  "find_stage_files demo_env ''/b'' =
     [''/b/e1/stage_0_lifecycle_metrics.json'', ''/b/e2/stage_1_lifecycle_metrics.json'',
      ''/b/e3/stage_0_lifecycle_metrics.json''] \<and>
   parse_stage_file demo_env ''/b'' ''/b/e1/stage_0_lifecycle_metrics.json'' = Inr demo_record1 \<and>
   files demo_env ''/b/e2/stage_1_lifecycle_metrics.json'' = Some demo_stage_text2 \<and>
   json_loads demo_env demo_stage_text2 = None \<and>
   parse_stage_file demo_env ''/b'' ''/b/e3/stage_0_lifecycle_metrics.json'' = Inr demo_record3 \<and>
   build_stage_df demo_env ''/b'' = Inl JSONDecodeError"
proof -
  have a: "find_stage_files demo_env ''/b'' =
     [''/b/e1/stage_0_lifecycle_metrics.json'', ''/b/e2/stage_1_lifecycle_metrics.json'',
      ''/b/e3/stage_0_lifecycle_metrics.json'']"
    by code_simp
  have f: "files demo_env ''/b/e2/stage_1_lifecycle_metrics.json'' = Some demo_stage_text2"
    by code_simp
  have j: "json_loads demo_env demo_stage_text2 = None"
    by code_simp
  have b: "build_stage_df demo_env ''/b'' = Inl JSONDecodeError"
    by code_simp
  from a f j b demo_parse1 demo_parse3 show ?thesis by simp
qed

subsection \<open>EPP log lines\<close>





subsection \<open>Aggregation\<close>

lemma foldl_c_add_Num:
  "list_all (\<lambda>c. \<exists>x. c = Num x) cs \<Longrightarrow> foldl c_add (Num a) cs = Num (a + sum_list (present cs))"
  by (induction cs arbitrary: a) (auto simp: add.assoc)

lemma present_filter_NaN:
  "present (filter (\<lambda>c. c \<noteq> NaN) cs) = present cs"
proof (induction cs)
  case Nil
  then show ?case by simp
next
  case (Cons c cs)
  then show ?case by (cases c) simp_all
qed

lemma filter_NaN_Num:
  "list_all finite_or_missing cs \<Longrightarrow> list_all (\<lambda>c. \<exists>x. c = Num x) (filter (\<lambda>c. c \<noteq> NaN) cs)"
proof (induction cs)
  case Nil
  then show ?case by simp
next
  case (Cons c cs)
  then show ?case by (cases c) (simp_all add: finite_or_missing_def)
qed

lemma length_present_filter:
  "list_all finite_or_missing cs \<Longrightarrow> length (filter (\<lambda>c. c \<noteq> NaN) cs) = length (present cs)"
proof (induction cs)
  case Nil
  then show ?case by simp
next
  case (Cons c cs)
  then show ?case by (cases c) (simp_all add: finite_or_missing_def)
qed

lemma nan_sum_present:
  assumes "list_all finite_or_missing cs"
  shows "nan_sum cs = sum_present cs"
  using foldl_c_add_Num [OF filter_NaN_Num [OF assms], of 0] present_filter_NaN [of cs]
  by (simp add: nan_sum_def sum_present_def)

lemma nan_mean_present:
  assumes "list_all finite_or_missing cs"
  shows "nan_mean cs = mean_present cs"
proof -
  let ?xs = "filter (\<lambda>c. c \<noteq> NaN) cs"
  have fin: "list_all finite_or_missing ?xs" using assms by (simp add: list_all_iff)
  have s: "nan_sum ?xs = Num (sum_list (present cs))"
    using nan_sum_present [OF fin] present_filter_NaN [of cs]
    by (simp add: sum_present_def nan_sum_def)
  have l: "length ?xs = length (present cs)" using assms by (rule length_present_filter)
  show ?thesis
  proof (cases "?xs = []")
    case True
    then have "present cs = []" using l by simp
    then show ?thesis using True by (simp add: nan_mean_def mean_present_def)
  next
    case False
    then have "present cs \<noteq> []" using l by auto
    then show ?thesis using False s l by (simp add: nan_mean_def mean_present_def Let_def)
  qed
qed

lemma aggregate_per_qps_map:
  "aggregate_per_qps df served_mode cap_served =
     map (\<lambda>k. agg_group (ascii_lower (if served_mode = [] then ''total'' else served_mode)) k
                (group_members df k)) (qps_groups df)"
  by (simp add: aggregate_per_qps_def Let_def qps_groups_def)





lemma group_cells_finite:
  assumes "list_all stage_cells_finite df"
  shows "list_all stage_cells_finite (group_members df k)"
  using assms by (simp add: group_members_def list_all_iff)

lemma column_finite:
  assumes "list_all stage_cells_finite g"
  shows "list_all finite_or_missing (map stage_record.send_duration_s g)"
    and "list_all finite_or_missing (map stage_record.achieved_rps_json g)"
    and "list_all finite_or_missing (map stage_record.ttft_mean_s g)"
    and "list_all finite_or_missing (map stage_record.ttft_p50_s g)"
    and "list_all finite_or_missing (map stage_record.ttft_p90_s g)"
    and "list_all finite_or_missing (map stage_record.itl_mean_s g)"
    and "list_all finite_or_missing (map stage_record.itl_p50_s g)"
    and "list_all finite_or_missing (map stage_record.itl_p90_s g)"
  using assms by (simp_all add: list_all_iff stage_cells_finite_def)


lemma cell_of_finite: "finite_or_missing (cell_of v)"
  by (cases v) (simp_all add: finite_or_missing_def)

lemma frame_row_finite: "stage_cells_finite (frame_row r)"
  by (simp add: stage_cells_finite_def frame_row_def cell_of_finite)

text \<open>Every stage table that \<^verbatim>\<open>build_stage_df\<close> builds holds finite or missing cells.\<close>

lemma build_stage_df_finite:
  assumes "build_stage_df env base_dir = Inr df"
  shows "list_all stage_cells_finite df"
proof -
  obtain rows where "df = (if rows = [] then []
      else sort_key (\<lambda>r. (stage_record.experiment r, asc_key (stage_record.requested_qps r),
                           index_key (stage_index r))) (map frame_row rows))"
    using assms by (auto simp: build_stage_df_def elim!: py_bind_InrE)
  then show ?thesis by (auto simp: list_all_iff frame_row_finite)
qed





subsection \<open>Summary per experiment\<close>













text \<open>Aggregation of finite or missing cells gives finite or missing means.\<close>

lemma mean_present_finite: "finite_or_missing (mean_present cs)"
  by (simp add: mean_present_def finite_or_missing_def)

lemma aggregate_per_qps_finite:
  assumes "list_all stage_cells_finite df"
  shows "list_all agg_cells_finite (aggregate_per_qps df served_mode cap_served)"
proof -
  have "agg_cells_finite (agg_group mode k (group_members df k))" for mode k
    using column_finite [OF group_cells_finite [OF assms, of k]]
    by (simp add: agg_cells_finite_def agg_group_def Let_def nan_mean_present mean_present_finite)
  then show ?thesis by (simp add: aggregate_per_qps_map list_all_iff)
qed



subsection \<open>The markdown report\<close>






lemma report_with_data:
  assumes "agg \<noteq> []"
  shows "summary_heading \<in> set (report_lines env fmt agg out_dir charts profile_yaml_path
                                epp_configs img_width_px baseline served_mode cap_served title) \<and>
         per_qps_heading \<in> set (report_lines env fmt agg out_dir charts profile_yaml_path
                                epp_configs img_width_px baseline served_mode cap_served title) \<and>
         (charts \<noteq> [] \<longrightarrow>
          charts_heading \<in> set (report_lines env fmt agg out_dir charts profile_yaml_path
                                epp_configs img_width_px baseline served_mode cap_served title))"
  using assms
  by (simp add: report_lines_def summary_lines_def per_qps_lines_def chart_lines_def
        summary_heading_def per_qps_heading_def charts_heading_def)


end
